theory Spec2Isabelle
  imports Main "HOL-Library.AList"
begin

section \<open>JavaScript values\<close>

text \<open>
  The values that flow through \<^verbatim>\<open>xhrless.js\<close>. Numbers are modelled by the integers
  plus \<open>NaN\<close> (the code only asks whether a number is zero, positive, or in a range).
  Strings are byte lists: a JavaScript string is represented by its UTF-8 encoding, so
  a string is empty in the model exactly when \<^verbatim>\<open>s.length\<close> is \<open>0\<close>. A surrogate that is not
  part of a pair is written as the three bytes its code point would get (\<open>ED\<close>, then a
  byte in \<open>A0..BF\<close>, then one more); no encoding of a character has that form.
  An object is the table of its own enumerable data properties in creation order, keys
  distinct; property values are never callable in this model. \<open>JObj\<close> is an object that
  inherits from \<^verbatim>\<open>Object.prototype\<close> (an object literal, an array, the result of
  \<^verbatim>\<open>JSON.parse\<close>); \<open>JBareObj\<close> is an object without a prototype (\<^verbatim>\<open>Object.create(null)\<close>).
\<close>

datatype jsval =
    JUndefined
  | JNull
  | JBool bool
  | JNum int
  | JNaN
  | JStr string
  | JObj "(string \<times> jsval) list"
  | JBareObj "(string \<times> jsval) list"

datatype exn = Error string | TypeError string | URIError string

text \<open>ToBoolean: what \<^verbatim>\<open>!v\<close>, \<^verbatim>\<open>v || w\<close> and \<^verbatim>\<open>v ? a : b\<close> test.\<close>

fun truthy :: "jsval \<Rightarrow> bool" where
  "truthy JUndefined = False"
| "truthy JNull = False"
| "truthy (JBool b) = b"
| "truthy (JNum n) = (n \<noteq> 0)"
| "truthy JNaN = False"
| "truthy (JStr s) = (s \<noteq> [])"
| "truthy (JObj ps) = True"
| "truthy (JBareObj ps) = True"

text \<open>\<^verbatim>\<open>a || b\<close> on values.\<close>

definition js_or :: "jsval \<Rightarrow> jsval \<Rightarrow> jsval" where
  "js_or a b = (if truthy a then a else b)"

text \<open>\<^verbatim>\<open>a || b\<close> on strings (the empty string is the only falsy string).\<close>

definition str_or :: "string \<Rightarrow> string \<Rightarrow> string" where
  "str_or a b = (if a = [] then b else a)"

fun typeof :: "jsval \<Rightarrow> string" where
  "typeof JUndefined = ''undefined''"
| "typeof JNull = ''object''"
| "typeof (JBool b) = ''boolean''"
| "typeof (JNum n) = ''number''"
| "typeof JNaN = ''number''"
| "typeof (JStr s) = ''string''"
| "typeof (JObj ps) = ''object''"
| "typeof (JBareObj ps) = ''object''"

text \<open>
  The test \<^verbatim>\<open>(typeof v == 'string') && v.length\<close>, returning the string when it passes.
\<close>

fun nonempty_string :: "jsval \<Rightarrow> string option" where
  "nonempty_string (JStr s) = (if s = [] then None else Some s)"
| "nonempty_string v = None"

subsection \<open>Number to string\<close>

definition digit_char :: "nat \<Rightarrow> char" where
  "digit_char d = ''0123456789'' ! (d mod 10)"

function string_of_nat :: "nat \<Rightarrow> string" where
  "string_of_nat n =
     (if n < 10 then [digit_char n] else string_of_nat (n div 10) @ [digit_char (n mod 10)])"
  by pat_completeness auto
termination
  by (relation "measure (\<lambda>n. n)") auto

declare string_of_nat.simps [simp del]

section \<open>The transport and the request object\<close>

text \<open>
  A handler argument is either a function (identified by a number) or any other value;
  the code tests \<^verbatim>\<open>typeof handler == 'function'\<close> before every call.
\<close>

datatype callback = Function nat | NotFunction

text \<open>
  What is installed in \<^verbatim>\<open>xhr.onreadystatechange\<close>: nothing, or the closure created by
  one of \<^verbatim>\<open>onChange\<close>, \<^verbatim>\<open>onReady\<close>, \<^verbatim>\<open>onSuccess\<close>, \<^verbatim>\<open>promise\<close>.
\<close>

datatype observer =
    NoObserver
  | OnChangeObs callback
  | OnReadyObs callback
  | OnSuccessObs callback callback
  | PromiseObs

text \<open>The calls made on the transport; \<open>Send None\<close> is \<^verbatim>\<open>xhr.send()\<close>.\<close>

datatype call =
    Open string string bool jsval jsval
  | SetRequestHeader string string
  | Send "jsval option"
  | Abort

text \<open>
  The \<^verbatim>\<open>XMLHttpRequest\<close> object is an external collaborator. The model keeps the
  properties the code reads or writes and a log of the methods the code calls on it;
  how the transport reacts to those calls is not part of \<^verbatim>\<open>xhrless.js\<close>.
  \<open>xhr_status\<close> is an unsigned integer, \<open>0\<close> when there is none.
\<close>

record XMLHttpRequest =
  xhr_readyState :: nat
  xhr_status :: nat
  xhr_responseType :: string
  xhr_response :: jsval
  xhr_timeout :: int
  xhr_onreadystatechange :: observer
  xhr_ontimeout :: "callback option"
  xhr_calls :: "call list"

text \<open>
  The instance created by the constructor, with its properties under their own names;
  \<open>method_name\<close> is \<^verbatim>\<open>this.method\<close>.
\<close>

record XHR =
  xhr :: XMLHttpRequest
  method_name :: string
  url :: string
  postData :: jsval
  userName :: jsval
  password :: jsval
  headers :: "(string \<times> string) list"
  data :: "(string \<times> jsval) list"

definition ERR_NONE :: int where "ERR_NONE = 0"
definition ERR_CONNECTION :: int where "ERR_CONNECTION = 1"
definition ERR_HTTPSTATUS :: int where "ERR_HTTPSTATUS = 2"
definition ERR_BODYTYPE :: int where "ERR_BODYTYPE = 3"

text \<open>\<^verbatim>\<open>XMLHttpRequest.DONE\<close> and \<^verbatim>\<open>xhr.DONE\<close>.\<close>

definition DONE :: nat where "DONE = 4"

section \<open>Classification\<close>

definition status :: "XHR \<Rightarrow> nat" where
  "status this = xhr_status (xhr this)"

definition response :: "XHR \<Rightarrow> jsval" where
  "response this = xhr_response (xhr this)"

definition isCompleted :: "XHR \<Rightarrow> bool" where
  "isCompleted this = (xhr_readyState (xhr this) = DONE \<or> xhr_readyState (xhr this) = DONE)"

definition isStatusOK :: "XHR \<Rightarrow> bool" where
  "isStatusOK this = (xhr_status (xhr this) \<ge> 200 \<and> xhr_status (xhr this) < 300)"

definition isSuccessResponse :: "XHR \<Rightarrow> bool" where
  "isSuccessResponse this =
     (isStatusOK this \<and>
      (xhr_responseType (xhr this) = [] \<or>
       (xhr_response (xhr this) \<noteq> JNull \<and> xhr_response (xhr this) \<noteq> JUndefined)))"

definition errorState :: "jsval \<Rightarrow> XHR \<Rightarrow> jsval" where
  "errorState asString this =
     (if status this = 0 then
        (if truthy asString then JStr ''Connection failed'' else JNum ERR_CONNECTION)
      else if \<not> isStatusOK this then
        (if truthy asString then JStr (''HTTP '' @ string_of_nat (status this))
         else JNum ERR_HTTPSTATUS)
      else if \<not> isSuccessResponse this then
        (if truthy asString then JStr ''Unexpected response body format''
         else JNum ERR_BODYTYPE)
      else
        (if truthy asString then JStr ''No error'' else JNum ERR_NONE))"


section \<open>Objects used as dictionaries\<close>

text \<open>
  \<^verbatim>\<open>this.headers\<close> is a plain object that inherits from \<^verbatim>\<open>Object.prototype\<close>; the
  \<^verbatim>\<open>cookies\<close> argument is whatever object the caller passes. Three facts of the language
  decide what the code does with them.

  \<^item> \<^verbatim>\<open>for (k in obj)\<close> visits the own enumerable keys: first the array indices (canonical
    decimal numerals below \<open>2\<^sup>3\<^sup>2 - 1\<close>) in ascending order, then every other key
    in creation order.
  \<^item> \<^verbatim>\<open>obj[k] = v\<close> creates or overwrites the own property \<open>k\<close>, except for the key
    \<^verbatim>\<open>__proto__\<close> when it is not yet an own property: the assignment then reaches the
    accessor inherited from \<^verbatim>\<open>Object.prototype\<close>, whose setter ignores every value
    that is neither an object nor \<^verbatim>\<open>null\<close>, and nothing is stored.
  \<^item> \<^verbatim>\<open>obj.hasOwnProperty(k)\<close> looks the method up on the object first: when the object
    has an own property named \<^verbatim>\<open>hasOwnProperty\<close> (here never a function), the call
    throws a \<^verbatim>\<open>TypeError\<close>. It throws as well on an object without a prototype, which
    has no such method at all.
\<close>

definition is_digit :: "char \<Rightarrow> bool" where
  "is_digit c = (c \<in> set ''0123456789'')"

definition nat_of_digits :: "string \<Rightarrow> nat" where
  "nat_of_digits s = foldl (\<lambda>n c. 10 * n + (of_char c - 48)) 0 s"

definition is_array_index :: "string \<Rightarrow> bool" where
  "is_array_index k =
     (k \<noteq> [] \<and> list_all is_digit k \<and> (k = ''0'' \<or> hd k \<noteq> CHR ''0'')
      \<and> nat_of_digits k < 4294967295)"

definition forin :: "(string \<times> 'v) list \<Rightarrow> (string \<times> 'v) list" where
  "forin obj =
     sort_key (\<lambda>p. nat_of_digits (fst p)) (filter (\<lambda>p. is_array_index (fst p)) obj)
     @ filter (\<lambda>p. \<not> is_array_index (fst p)) obj"

text \<open>\<^verbatim>\<open>obj[k] = v\<close> for a string \<open>v\<close>.\<close>

definition assign_property ::
  "(string \<times> string) list \<Rightarrow> string \<Rightarrow> string \<Rightarrow> (string \<times> string) list" where
  "assign_property obj k v =
     (if k = ''__proto__'' \<and> map_of obj k = None then obj else AList.update k v obj)"

text \<open>\<^verbatim>\<open>obj.hasOwnProperty(k)\<close> on an object that inherits from \<^verbatim>\<open>Object.prototype\<close>.\<close>

definition call_hasOwnProperty :: "(string \<times> 'v) list \<Rightarrow> string \<Rightarrow> exn + bool" where
  "call_hasOwnProperty obj k =
     (if map_of obj ''hasOwnProperty'' \<noteq> None
      then Inl (TypeError ''hasOwnProperty is not a function'')
      else Inr (map_of obj k \<noteq> None))"

text \<open>\<^verbatim>\<open>obj.hasOwnProperty(k)\<close> on an object with the given prototype.\<close>

datatype prototype = ObjectPrototype | NullPrototype

definition call_hasOwnProperty_on ::
  "prototype \<Rightarrow> (string \<times> 'v) list \<Rightarrow> string \<Rightarrow> exn + bool" where
  "call_hasOwnProperty_on proto obj k =
     (case proto of
        ObjectPrototype \<Rightarrow> call_hasOwnProperty obj k
      | NullPrototype \<Rightarrow> Inl (TypeError ''hasOwnProperty is not a function''))"

subsection \<open>Strings\<close>

text \<open>
  \<^verbatim>\<open>encodeURIComponent\<close> throws a \<^verbatim>\<open>URIError\<close> on a string with an unpaired surrogate.
  On every other string it keeps the letters, the digits and \<^verbatim>\<open>- _ . ! ~ * ' ( )\<close>, and
  writes every other byte of the UTF-8 encoding as \<^verbatim>\<open>%XX\<close> with upper-case hex digits.
\<close>

fun unpaired_surrogate :: "string \<Rightarrow> bool" where
  "unpaired_surrogate (a # b # s) =
     ((of_char a = (237 :: nat) \<and> (160 :: nat) \<le> of_char b \<and> of_char b \<le> (191 :: nat))
      \<or> unpaired_surrogate (b # s))"
| "unpaired_surrogate s = False"

definition uri_unreserved :: "char \<Rightarrow> bool" where
  "uri_unreserved c =
     (c \<in> set ''ABCDEFGHIJKLMNOPQRSTUVWXYZabcdefghijklmnopqrstuvwxyz0123456789-_.!~*()''
      \<or> c = CHR 0x27)"

definition hex_digit :: "nat \<Rightarrow> char" where
  "hex_digit d = ''0123456789ABCDEF'' ! (d mod 16)"

definition percent_encode :: "string \<Rightarrow> string" where
  "percent_encode s =
     concat (map (\<lambda>c. if uri_unreserved c then [c]
                       else [CHR ''%'', hex_digit (of_char c div 16), hex_digit (of_char c mod 16)]) s)"

definition encodeURIComponent :: "string \<Rightarrow> exn + string" where
  "encodeURIComponent s =
     (if unpaired_surrogate s then Inl (URIError ''URI malformed'') else Inr (percent_encode s))"

text \<open>\<^verbatim>\<open>parts.join(sep)\<close>.\<close>

fun join :: "string \<Rightarrow> string list \<Rightarrow> string" where
  "join sep [] = []"
| "join sep [x] = x"
| "join sep (x # y # ys) = x @ sep @ join sep (y # ys)"

section \<open>Building the request\<close>

text \<open>
  Every method of the prototype that can throw returns the exception (if any) together
  with the object as the call leaves it; the others return the object (\<^verbatim>\<open>return this\<close>).
  The string parameters \<open>url\<close> and \<open>method\<close> are taken at their documented type; an omitted
  one is the empty string, which is what \<^verbatim>\<open>undefined || ''\<close> stores.
\<close>

definition new_XHR :: "XMLHttpRequest \<Rightarrow> string \<Rightarrow> jsval \<Rightarrow> string \<Rightarrow> XHR" where
  "new_XHR transport u body m =
     \<lparr> xhr = transport, method_name = str_or m [], url = str_or u [],
       postData = js_or body JUndefined, userName = JUndefined, password = JUndefined,
       headers = [], data = [] \<rparr>"

definition reset :: "string \<Rightarrow> jsval \<Rightarrow> string \<Rightarrow> XHR \<Rightarrow> XHR" where
  "reset u body m this =
     this\<lparr> method_name := str_or m [], url := str_or u [], postData := js_or body JUndefined \<rparr>"

definition httpAuth :: "jsval \<Rightarrow> jsval \<Rightarrow> XHR \<Rightarrow> XHR" where
  "httpAuth user pass this = this\<lparr> userName := user, password := pass \<rparr>"

definition setHeader :: "jsval \<Rightarrow> jsval \<Rightarrow> XHR \<Rightarrow> exn option \<times> XHR" where
  "setHeader name v this =
     (case nonempty_string name of
        None \<Rightarrow> (None, this)
      | Some n \<Rightarrow>
          (case nonempty_string v of
             Some s \<Rightarrow> (None, this\<lparr> headers := assign_property (headers this) n s \<rparr>)
           | None \<Rightarrow>
               (case call_hasOwnProperty (headers this) n of
                  Inl e \<Rightarrow> (Some e, this)
                | Inr own \<Rightarrow>
                    if own then (None, this\<lparr> headers := AList.delete n (headers this) \<rparr>)
                    else (None, this))))"

text \<open>
  The loop of \<^verbatim>\<open>setCookies\<close> over \<^verbatim>\<open>for (let name in cookies)\<close>, for an object with the given
  prototype; the third argument is what is left to visit, each key with \<^verbatim>\<open>cookies[name]\<close>.
  An exception of \<^verbatim>\<open>cookies.hasOwnProperty(name)\<close> or of \<^verbatim>\<open>encodeURIComponent\<close> ends the loop
  and the call. The loop runs for objects only: \<^verbatim>\<open>typeof null\<close> is \<^verbatim>\<open>'object'\<close> too, but
  \<^verbatim>\<open>for (name in null)\<close> visits nothing.
\<close>

fun encode_cookies ::
  "prototype \<Rightarrow> (string \<times> jsval) list \<Rightarrow> (string \<times> jsval) list \<Rightarrow> string list
   \<Rightarrow> exn + string list" where
  "encode_cookies proto cookies [] encoded = Inr encoded"
| "encode_cookies proto cookies ((name, v) # rest) encoded =
     (case call_hasOwnProperty_on proto cookies name of
        Inl e \<Rightarrow> Inl e
      | Inr own \<Rightarrow>
          (case (if own then nonempty_string v else None) of
             Some s \<Rightarrow>
               (case encodeURIComponent s of
                  Inl e \<Rightarrow> Inl e
                | Inr c \<Rightarrow> encode_cookies proto cookies rest (encoded @ [name @ ''='' @ c]))
           | None \<Rightarrow> encode_cookies proto cookies rest encoded))"

definition setCookies :: "jsval \<Rightarrow> XHR \<Rightarrow> exn option \<times> XHR" where
  "setCookies cookies this =
     (case (case cookies of
              JObj ps \<Rightarrow> encode_cookies ObjectPrototype ps (forin ps) []
            | JBareObj ps \<Rightarrow> encode_cookies NullPrototype ps (forin ps) []
            | _ \<Rightarrow> Inr []) of
        Inl e \<Rightarrow> (Some e, this)
      | Inr encoded \<Rightarrow>
          if encoded \<noteq> [] then
            (None, this\<lparr> headers := assign_property (headers this) ''Cookie'' (join ''; '' encoded) \<rparr>)
          else
            (case call_hasOwnProperty (headers this) ''Cookie'' of
               Inl e \<Rightarrow> (Some e, this)
             | Inr own \<Rightarrow>
                 if own then (None, this\<lparr> headers := AList.delete ''Cookie'' (headers this) \<rparr>)
                 else (None, this)))"

text \<open>
  \<^verbatim>\<open>responseType(value)\<close> returns the current type (\<open>Inl\<close>) when \<open>value\<close> is not a string,
  and otherwise stores it and returns the object (\<open>Inr\<close>).
\<close>

definition responseType :: "jsval \<Rightarrow> XHR \<Rightarrow> string + XHR" where
  "responseType v this =
     (case v of
        JStr s \<Rightarrow> Inr (this\<lparr> xhr := (xhr this)\<lparr> xhr_responseType := s \<rparr> \<rparr>)
      | _ \<Rightarrow> Inl (xhr_responseType (xhr this)))"

section \<open>Observers\<close>

definition set_onreadystatechange :: "observer \<Rightarrow> XHR \<Rightarrow> XHR" where
  "set_onreadystatechange obs this = this\<lparr> xhr := (xhr this)\<lparr> xhr_onreadystatechange := obs \<rparr> \<rparr>"

definition onTimeout :: "callback \<Rightarrow> XHR \<Rightarrow> XHR" where
  "onTimeout handler this = this\<lparr> xhr := (xhr this)\<lparr> xhr_ontimeout := Some handler \<rparr> \<rparr>"

definition onChange :: "callback \<Rightarrow> XHR \<Rightarrow> XHR" where
  "onChange handler this = set_onreadystatechange (OnChangeObs handler) this"

definition onReady :: "callback \<Rightarrow> XHR \<Rightarrow> XHR" where
  "onReady handler this = set_onreadystatechange (OnReadyObs handler) this"

definition onSuccess :: "callback \<Rightarrow> callback \<Rightarrow> XHR \<Rightarrow> XHR" where
  "onSuccess successHandler errorHandler this =
     set_onreadystatechange (OnSuccessObs successHandler errorHandler) this"

text \<open>
  What a \<^verbatim>\<open>readystatechange\<close> notification makes the installed closure do: the handlers
  it calls (each with the object as \<^verbatim>\<open>this\<close> and as argument), or the promise it settles.
\<close>

datatype effect = Called nat | Resolved | Rejected

definition invoke :: "callback \<Rightarrow> effect list" where
  "invoke handler = (case handler of Function f \<Rightarrow> [Called f] | NotFunction \<Rightarrow> [])"

definition fire_onreadystatechange :: "XHR \<Rightarrow> effect list" where
  "fire_onreadystatechange this =
     (case xhr_onreadystatechange (xhr this) of
        NoObserver \<Rightarrow> []
      | OnChangeObs handler \<Rightarrow> invoke handler
      | OnReadyObs handler \<Rightarrow> (if isCompleted this then invoke handler else [])
      | OnSuccessObs successHandler errorHandler \<Rightarrow>
          (if isCompleted this then
             (if isSuccessResponse this then invoke successHandler else invoke errorHandler)
           else [])
      | PromiseObs \<Rightarrow>
          (if isCompleted this then
             (if isSuccessResponse this then [Resolved] else [Rejected])
           else []))"

section \<open>Dispatch\<close>

definition transport_calls :: "call list \<Rightarrow> XHR \<Rightarrow> XHR" where
  "transport_calls cs this = this\<lparr> xhr := (xhr this)\<lparr> xhr_calls := xhr_calls (xhr this) @ cs \<rparr> \<rparr>"

definition set_headers :: "XHR \<Rightarrow> call list" where
  "set_headers this = map (\<lambda>(key, v). SetRequestHeader key v) (forin (headers this))"

definition send :: "jsval \<Rightarrow> XHR \<Rightarrow> exn option \<times> XHR" where
  "send body this =
     (if url this = [] then (Some (Error ''The request URL is empty''), this)
      else if truthy body \<or> truthy (postData this) then
        (None, transport_calls
           ([Open (str_or (method_name this) ''POST'') (url this) True (userName this) (password this)]
            @ set_headers this
            @ [Send (Some (js_or body (postData this)))]) this)
      else
        (None, transport_calls
           ([Open (str_or (method_name this) ''GET'') (url this) True (userName this) (password this)]
            @ set_headers this
            @ [Send None]) this))"

definition abort :: "XHR \<Rightarrow> XHR" where
  "abort this = transport_calls [Abort] this"

text \<open>
  \<^verbatim>\<open>promise(postData)\<close> installs its closure and then calls \<^verbatim>\<open>send\<close> inside the promise's
  executor: an exception thrown there rejects the promise at once.
\<close>

datatype promise_state = Pending | RejectedWith exn

definition promise :: "jsval \<Rightarrow> XHR \<Rightarrow> promise_state \<times> XHR" where
  "promise body this =
     (case send body (set_onreadystatechange PromiseObs this) of
        (Some e, this') \<Rightarrow> (RejectedWith e, this')
      | (None, this') \<Rightarrow> (Pending, this'))"

section \<open>What the cookie header should hold\<close>

text \<open>
  The encoding \<^verbatim>\<open>name=encodeURIComponent(value)\<close> of one entry whose value is a non-empty
  string, and the encodings of all such entries of an object in its iteration order.
  They are what the header should hold when every such value can be encoded, that is,
  has no unpaired surrogate (\<open>encodable_values\<close>).
\<close>

definition cookie_pair :: "string \<times> jsval \<Rightarrow> string option" where
  "cookie_pair p =
     map_option (\<lambda>s. fst p @ ''='' @ percent_encode s) (nonempty_string (snd p))"

definition encodable_values :: "(string \<times> jsval) list \<Rightarrow> bool" where
  "encodable_values cookies =
     list_all (\<lambda>p. case nonempty_string (snd p) of
                       None \<Rightarrow> True
                     | Some s \<Rightarrow> \<not> unpaired_surrogate s) cookies"

definition encoded_cookies :: "(string \<times> jsval) list \<Rightarrow> string list" where
  "encoded_cookies cookies = List.map_filter cookie_pair (forin cookies)"

section \<open>Example objects\<close>

text \<open>A transport that has not been used, and request objects built on it.\<close>

definition fresh_transport :: XMLHttpRequest where
  "fresh_transport =
     \<lparr> xhr_readyState = 0, xhr_status = 0, xhr_responseType = [], xhr_response = JStr [],
       xhr_timeout = 0, xhr_onreadystatechange = NoObserver, xhr_ontimeout = None,
       xhr_calls = [] \<rparr>"

text \<open>A request whose transport has reached \<open>DONE\<close> with the given status and response.\<close>

definition settled :: "nat \<Rightarrow> string \<Rightarrow> jsval \<Rightarrow> XHR" where
  "settled st rt resp =
     new_XHR (fresh_transport\<lparr> xhr_readyState := DONE, xhr_status := st,
                xhr_responseType := rt, xhr_response := resp \<rparr>) ''http://h/'' JUndefined []"

definition blank_request :: XHR where
  "blank_request = new_XHR fresh_transport ''http://h/'' JUndefined []"

definition stored_b1 :: XHR where
  "stored_b1 = reset ''http://h/'' (JStr ''b1'') [] (new_XHR fresh_transport [] JUndefined [])"

definition cookie_old :: XHR where
  "cookie_old = blank_request\<lparr> headers := [(''Cookie'', ''old=1'')] \<rparr>"

definition configured :: XHR where
  "configured =
     blank_request\<lparr> method_name := ''PUT'', userName := JStr ''u'', password := JStr ''p'',
       headers := [(''X-Test'', ''OK''), (''10'', ''b''), (''9'', ''a'')] \<rparr>"

section \<open>Auxiliary facts\<close>

lemma string_of_nat_404: "string_of_nat 404 = ''404''"
  by (simp add: string_of_nat.simps digit_char_def)

lemma isCompleted_settled: "isCompleted (settled st rt resp)"
  by (simp add: settled_def new_XHR_def isCompleted_def)

text \<open>
  Under a non-empty response type the classification looks at the decoded response; it
  agrees with the status check whenever the transport delivers a string.
\<close>

lemma isSuccessResponse_string_response:
  "xhr_response (xhr this) = JStr s \<Longrightarrow> isSuccessResponse this = isStatusOK this"
  by (simp add: isSuccessResponse_def)

lemma isSuccessResponse_settled:
  "isSuccessResponse (settled st rt resp) =
     (200 \<le> st \<and> st < 300 \<and> (rt = [] \<or> (resp \<noteq> JNull \<and> resp \<noteq> JUndefined)))"
  by (simp add: settled_def new_XHR_def isSuccessResponse_def isStatusOK_def)

subsection \<open>Enumeration order\<close>

lemma set_forin: "set (forin obj) = set obj"
  by (auto simp: forin_def)

lemma length_forin: "length (forin obj) = length obj"
  by (simp add: forin_def sum_length_filter_compl)

lemma set_set_headers:
  "set (set_headers this) = (\<lambda>(key, v). SetRequestHeader key v) ` set (headers this)"
  by (simp add: set_headers_def set_forin)

lemma length_set_headers: "length (set_headers this) = length (headers this)"
  by (simp add: set_headers_def length_forin)

lemma set_headers_cong: "headers this' = headers this \<Longrightarrow> set_headers this' = set_headers this"
  by (simp add: set_headers_def)

lemma forin_ab: "forin [(''a'', x), (''b'', y)] = [(''a'', x), (''b'', y)]"
  by (simp add: forin_def is_array_index_def is_digit_def)

subsection \<open>Dispatch leaves the configuration alone\<close>

lemma send_descriptor:
  "method_name (snd (send body this)) = method_name this"
  "url (snd (send body this)) = url this"
  "postData (snd (send body this)) = postData this"
  "userName (snd (send body this)) = userName this"
  "password (snd (send body this)) = password this"
  "headers (snd (send body this)) = headers this"
  "data (snd (send body this)) = data this"
  by (simp_all add: send_def transport_calls_def)

lemma send_truthy_body:
  assumes "url this \<noteq> []" "truthy body"
  shows "send body this =
    (None, transport_calls
       ([Open (str_or (method_name this) ''POST'') (url this) True (userName this) (password this)]
        @ set_headers this @ [Send (Some body)]) this)"
  using assms by (simp add: send_def js_or_def)

lemma observer_send:
  "xhr_onreadystatechange (xhr (snd (send body this))) = xhr_onreadystatechange (xhr this)"
  by (simp add: send_def transport_calls_def)

lemma promise_installs:
  "xhr_onreadystatechange (xhr (snd (promise body this))) = PromiseObs"
proof -
  have "snd (promise body this) = snd (send body (set_onreadystatechange PromiseObs this))"
    by (simp add: promise_def split: prod.splits option.splits)
  then show ?thesis
    by (simp add: observer_send set_onreadystatechange_def)
qed

subsection \<open>Objects without a shadowed \<^verbatim>\<open>hasOwnProperty\<close>\<close>

lemma call_hasOwnProperty_plain:
  "map_of obj ''hasOwnProperty'' = None \<Longrightarrow>
   call_hasOwnProperty obj k = Inr (map_of obj k \<noteq> None)"
  by (simp add: call_hasOwnProperty_def)

lemma assign_property_ordinary:
  "k \<noteq> ''__proto__'' \<Longrightarrow> assign_property obj k v = AList.update k v obj"
  by (simp add: assign_property_def)

lemma delete_absent: "map_of obj k = None \<Longrightarrow> AList.delete k obj = obj"
  by (simp add: map_of_eq_None_iff)

lemma remove_header:
  assumes "map_of (headers this) ''hasOwnProperty'' = None"
  shows "(case call_hasOwnProperty (headers this) k of
            Inl e \<Rightarrow> (Some e, this)
          | Inr own \<Rightarrow>
              if own then (None, this\<lparr> headers := AList.delete k (headers this) \<rparr>)
              else (None, this))
         = (None, this\<lparr> headers := AList.delete k (headers this) \<rparr>)"
  by (simp add: call_hasOwnProperty_plain [OF assms] delete_absent)

lemma call_hasOwnProperty_on_plain:
  "map_of obj ''hasOwnProperty'' = None \<Longrightarrow>
   call_hasOwnProperty_on ObjectPrototype obj k = Inr (map_of obj k \<noteq> None)"
  by (simp add: call_hasOwnProperty_on_def call_hasOwnProperty_plain)

lemma encodable_values_forin: "encodable_values (forin cookies) = encodable_values cookies"
  by (simp add: encodable_values_def list_all_iff set_forin)

lemma encode_cookies_plain:
  assumes "map_of cookies ''hasOwnProperty'' = None"
    and "set rest \<subseteq> set cookies"
    and "encodable_values rest"
  shows "encode_cookies ObjectPrototype cookies rest encoded =
    Inr (encoded @ List.map_filter cookie_pair rest)"
  using assms(2,3)
proof (induction rest arbitrary: encoded)
  case Nil
  then show ?case by simp
next
  case (Cons p rest)
  obtain name v where p: "p = (name, v)" by (cases p)
  from Cons.prems p have "(name, v) \<in> set cookies" by simp
  then have own: "map_of cookies name \<noteq> None"
    by (metis map_of_eq_None_iff fst_conv image_eqI)
  from Cons.prems have rest: "set rest \<subseteq> set cookies" "encodable_values rest"
    by (simp_all add: encodable_values_def)
  show ?case
  proof (cases "nonempty_string v")
    case None
    then show ?thesis
      by (simp add: p call_hasOwnProperty_on_plain [OF assms(1)] own Cons.IH [OF rest]
          cookie_pair_def)
  next
    case (Some s)
    with Cons.prems(2) p have "\<not> unpaired_surrogate s"
      by (simp add: encodable_values_def)
    with Some show ?thesis
      by (simp add: p call_hasOwnProperty_on_plain [OF assms(1)] own Cons.IH [OF rest]
          cookie_pair_def encodeURIComponent_def)
  qed
qed

lemma encode_cookies_forin:
  "map_of cookies ''hasOwnProperty'' = None \<Longrightarrow> encodable_values cookies \<Longrightarrow>
   encode_cookies ObjectPrototype cookies (forin cookies) [] = Inr (encoded_cookies cookies)"
  by (simp add: encode_cookies_plain set_forin encodable_values_forin encoded_cookies_def)

text \<open>
  With something to encode, \<^verbatim>\<open>setCookies\<close> never calls \<^verbatim>\<open>hasOwnProperty\<close> on the header
  table; with nothing to encode it does.
\<close>

lemma setCookies_store:
  assumes "map_of cookies ''hasOwnProperty'' = None" "encodable_values cookies"
    and "encoded_cookies cookies \<noteq> []"
  shows "setCookies (JObj cookies) this =
     (None, this\<lparr> headers :=
        AList.update ''Cookie'' (join ''; '' (encoded_cookies cookies)) (headers this) \<rparr>)"
  using assms(3)
  by (simp add: setCookies_def encode_cookies_forin [OF assms(1,2)] assign_property_ordinary)

lemma setCookies_remove:
  assumes "map_of cookies ''hasOwnProperty'' = None" "encodable_values cookies"
    and "encoded_cookies cookies = []"
    and "map_of (headers this) ''hasOwnProperty'' = None"
  shows "setCookies (JObj cookies) this =
     (None, this\<lparr> headers := AList.delete ''Cookie'' (headers this) \<rparr>)"
  using assms(3) remove_header [OF assms(4), of "''Cookie''"]
  by (simp add: setCookies_def encode_cookies_forin [OF assms(1,2)])

lemma setCookies_not_object:
  assumes "map_of (headers this) ''hasOwnProperty'' = None"
    and "\<forall>ps. cookies \<noteq> JObj ps \<and> cookies \<noteq> JBareObj ps"
  shows "setCookies cookies this =
     (None, this\<lparr> headers := AList.delete ''Cookie'' (headers this) \<rparr>)"
  using remove_header [OF assms(1), of "''Cookie''"] assms(2)
  by (cases cookies) (auto simp: setCookies_def)

lemma setCookies_empty_bare:
  assumes "map_of (headers this) ''hasOwnProperty'' = None"
  shows "setCookies (JBareObj []) this =
     (None, this\<lparr> headers := AList.delete ''Cookie'' (headers this) \<rparr>)"
  using remove_header [OF assms, of "''Cookie''"]
  by (simp add: setCookies_def forin_def)

lemma encoded_cookies_ab:
  "encoded_cookies [(''a'', JStr ''1''), (''b'', JStr ''2'')] = [''a=1'', ''b=2'']"
  by (simp add: encoded_cookies_def forin_ab cookie_pair_def percent_encode_def
      uri_unreserved_def)

lemma encodable_values_ab: "encodable_values [(''a'', JStr ''1''), (''b'', JStr ''2'')]"
  by (simp add: encodable_values_def)

text \<open>
  The maps on which the loop throws: a non-empty map without a prototype, a map with an
  own property named \<^verbatim>\<open>hasOwnProperty\<close>, and a map with a string value that has an unpaired
  surrogate (here \<open>U+D800\<close>). The header table is left as it was.
\<close>

lemma setCookies_bare_map_throws:
  assumes "cookies \<noteq> []"
  shows "setCookies (JBareObj cookies) this =
     (Some (TypeError ''hasOwnProperty is not a function''), this)"
proof -
  from assms have "forin cookies \<noteq> []"
    using length_forin [of cookies] by (cases "forin cookies") auto
  then obtain name v rest where "forin cookies = (name, v) # rest"
    by (cases "forin cookies") auto
  then show ?thesis
    by (simp add: setCookies_def call_hasOwnProperty_on_def)
qed

lemma setCookies_shadowed_throws:
  assumes "map_of cookies ''hasOwnProperty'' = Some v"
  shows "setCookies (JObj cookies) this =
     (Some (TypeError ''hasOwnProperty is not a function''), this)"
proof -
  from assms have "cookies \<noteq> []" by auto
  then have "forin cookies \<noteq> []"
    using length_forin [of cookies] by (cases "forin cookies") auto
  then obtain name w rest where "forin cookies = (name, w) # rest"
    by (cases "forin cookies") auto
  with assms show ?thesis
    by (simp add: setCookies_def call_hasOwnProperty_on_def call_hasOwnProperty_def)
qed

lemma setCookies_unpaired_surrogate_throws:
  "setCookies (JObj [(''a'', JStr [CHR 0xED, CHR 0xA0, CHR 0x80])]) this =
     (Some (URIError ''URI malformed''), this)"
  by (simp add: setCookies_def forin_def is_array_index_def is_digit_def
      call_hasOwnProperty_on_def call_hasOwnProperty_def encodeURIComponent_def)

text \<open>
  \<^verbatim>\<open>setHeader\<close> on a name other than \<^verbatim>\<open>__proto__\<close>, for a header table in which
  \<^verbatim>\<open>hasOwnProperty\<close> is not shadowed: a non-empty string is stored under the name, anything
  else removes the name.
\<close>

lemma setHeader_ordinary_name:
  assumes "n \<noteq> []" "n \<noteq> ''__proto__''" "map_of (headers this) ''hasOwnProperty'' = None"
  shows "setHeader (JStr n) v this =
     (None, this\<lparr> headers :=
        (case nonempty_string v of
           Some s \<Rightarrow> AList.update n s (headers this)
         | None \<Rightarrow> AList.delete n (headers this)) \<rparr>)"
  using assms remove_header [OF assms(3), of n]
  by (cases "nonempty_string v") (simp_all add: setHeader_def assign_property_ordinary)

lemma setHeader_ordinary_lookup:
  assumes "n \<noteq> []" "n \<noteq> ''__proto__''" "map_of (headers this) ''hasOwnProperty'' = None"
  shows "map_of (headers (snd (setHeader (JStr n) v this))) =
     (map_of (headers this))(n := nonempty_string v)"
  by (cases "nonempty_string v")
    (simp_all add: setHeader_ordinary_name [OF assms] AList.update_conv' AList.delete_conv')

text \<open>
  For such names and tables, an empty string and \<^verbatim>\<open>undefined\<close> do the same, a repeated
  call changes nothing more, and the last call decides the header. The keys of the header
  table stay distinct under \<^verbatim>\<open>setHeader\<close> and \<^verbatim>\<open>setCookies\<close>.
\<close>

lemma setHeader_ordinary_plain:
  assumes "n \<noteq> []" "n \<noteq> ''__proto__''" "n \<noteq> ''hasOwnProperty''"
    "map_of (headers this) ''hasOwnProperty'' = None"
  shows "map_of (headers (snd (setHeader (JStr n) v this))) ''hasOwnProperty'' = None"
  using assms by (simp add: setHeader_ordinary_lookup)

lemma setHeader_empty_is_undefined:
  "setHeader name (JStr []) this = setHeader name JUndefined this"
  by (simp add: setHeader_def split: option.splits)

lemma setHeader_idempotent:
  assumes "n \<noteq> []" "n \<noteq> ''__proto__''" "n \<noteq> ''hasOwnProperty''"
    "map_of (headers this) ''hasOwnProperty'' = None"
  shows "setHeader (JStr n) v (snd (setHeader (JStr n) v this)) = setHeader (JStr n) v this"
proof -
  define this' where "this' = snd (setHeader (JStr n) v this)"
  have plain: "map_of (headers this') ''hasOwnProperty'' = None"
    unfolding this'_def by (rule setHeader_ordinary_plain [OF assms])
  have first: "setHeader (JStr n) v this = (None, this')"
    unfolding this'_def by (simp add: setHeader_ordinary_name [OF assms(1,2,4)])
  have "headers this' =
      (case nonempty_string v of
         Some s \<Rightarrow> AList.update n s (headers this)
       | None \<Rightarrow> AList.delete n (headers this))"
    unfolding this'_def by (simp add: setHeader_ordinary_name [OF assms(1,2,4)])
  then have "setHeader (JStr n) v this' = (None, this')"
    by (cases "nonempty_string v")
      (simp_all add: setHeader_ordinary_name [OF assms(1,2) plain] AList.delete_idem)
  with first show ?thesis
    by (simp add: this'_def)
qed

lemma setHeader_last_write_wins:
  assumes "n \<noteq> []" "n \<noteq> ''__proto__''" "n \<noteq> ''hasOwnProperty''"
    "map_of (headers this) ''hasOwnProperty'' = None"
  shows "map_of (headers (snd (setHeader (JStr n) w (snd (setHeader (JStr n) v this))))) =
     map_of (headers (snd (setHeader (JStr n) w this)))"
proof -
  note plain = setHeader_ordinary_plain [OF assms, of v]
  show ?thesis
    by (simp add: setHeader_ordinary_lookup [OF assms(1,2) plain]
        setHeader_ordinary_lookup [OF assms(1,2,4)])
qed

lemma setHeader_distinct:
  "distinct (map fst (headers this)) \<Longrightarrow>
   distinct (map fst (headers (snd (setHeader name v this))))"
  by (simp add: setHeader_def assign_property_def AList.distinct_update AList.distinct_delete
      split: option.splits sum.splits)

lemma setCookies_distinct:
  "distinct (map fst (headers this)) \<Longrightarrow>
   distinct (map fst (headers (snd (setCookies cookies this))))"
  by (simp add: setCookies_def assign_property_def AList.distinct_update AList.distinct_delete
      split: option.splits sum.splits)

section \<open>Success classification and error taxonomy\<close>

text \<open>
  Claim C1 as stated exempts both \<^verbatim>\<open>"text"\<close> and the default response type from the check
  of the decoded response. The code exempts the empty (default) response type only: a
  completed request with status \<open>200\<close>, response type \<^verbatim>\<open>"text"\<close> and a \<^verbatim>\<open>null\<close> response is
  not a success, although the stated condition holds for it.
\<close>

theorem isSuccessResponse_text_counterexample:
  "isCompleted (settled 200 ''text'' JNull) \<and>
   isSuccessResponse (settled 200 ''text'' JNull) \<noteq>
     (200 \<le> status (settled 200 ''text'' JNull) \<and> status (settled 200 ''text'' JNull) < 300 \<and>
      (xhr_responseType (xhr (settled 200 ''text'' JNull)) = ''text'' \<or>
       xhr_responseType (xhr (settled 200 ''text'' JNull)) = [] \<or>
       (response (settled 200 ''text'' JNull) \<noteq> JNull \<and>
        response (settled 200 ''text'' JNull) \<noteq> JUndefined)))"
  by (simp add: settled_def new_XHR_def fresh_transport_def isCompleted_def
      isSuccessResponse_def isStatusOK_def status_def response_def)

text \<open>
  Claim C1, amended: for every request object (completed or not), \<^verbatim>\<open>isSuccessResponse\<close> is
  true exactly when the status is in \<open>[200, 300)\<close> and either the response type is the empty
  string (the default) or the decoded response is neither \<^verbatim>\<open>null\<close> nor \<^verbatim>\<open>undefined\<close>; an
  explicit \<^verbatim>\<open>"text"\<close> is judged by the decoded response like every other non-empty type.
  In particular status \<open>200\<close> with type \<^verbatim>\<open>"json"\<close> is a success for a decoded object and
  a failure for \<^verbatim>\<open>null\<close>.
\<close>

theorem isSuccessResponse_iff:
  "isSuccessResponse this =
     (200 \<le> status this \<and> status this < 300 \<and>
      (xhr_responseType (xhr this) = [] \<or>
       (response this \<noteq> JNull \<and> response this \<noteq> JUndefined)))
   \<and> isSuccessResponse
        (this\<lparr> xhr := (xhr this)\<lparr> xhr_status := 200, xhr_responseType := ''json'',
                                    xhr_response := JObj ps \<rparr> \<rparr>)
   \<and> \<not> isSuccessResponse
        (this\<lparr> xhr := (xhr this)\<lparr> xhr_status := 200, xhr_responseType := ''json'',
                                    xhr_response := JNull \<rparr> \<rparr>)"
  by (simp add: isSuccessResponse_def isStatusOK_def status_def response_def)

theorem isSuccessResponse_iff_witness:
  "isSuccessResponse (settled 204 [] JNull) \<and>
   \<not> isSuccessResponse (settled 200 ''text'' JUndefined) \<and>
   isSuccessResponse (settled 200 ''text'' (JStr ''ok'')) \<and>
   \<not> isSuccessResponse (settled 300 [] (JStr ''moved''))"
  using isSuccessResponse_iff [of "settled 204 [] JNull"]
    isSuccessResponse_iff [of "settled 200 ''text'' JUndefined"]
    isSuccessResponse_iff [of "settled 200 ''text'' (JStr ''ok'')"]
    isSuccessResponse_iff [of "settled 300 [] (JStr ''moved'')"]
  by (simp add: settled_def new_XHR_def fresh_transport_def status_def response_def)

text \<open>
  Claim C2: \<^verbatim>\<open>errorState\<close> tests in a fixed order. A status of \<open>0\<close> gives \<^verbatim>\<open>ERR_CONNECTION\<close>
  (\<^verbatim>\<open>Connection failed\<close>); otherwise a status outside \<open>[200, 300)\<close> gives \<^verbatim>\<open>ERR_HTTPSTATUS\<close>
  (\<^verbatim>\<open>HTTP\<close> and the status); otherwise a failed success classification gives \<^verbatim>\<open>ERR_BODYTYPE\<close>
  (\<^verbatim>\<open>Unexpected response body format\<close>); otherwise \<^verbatim>\<open>ERR_NONE\<close> (\<^verbatim>\<open>No error\<close>). Status \<open>0\<close>
  gives \<^verbatim>\<open>ERR_CONNECTION\<close> whatever the decoded response is, and status \<open>404\<close> gives
  \<^verbatim>\<open>ERR_HTTPSTATUS\<close> whatever the response type is.
\<close>

theorem errorState_precedence:
  "(status this = 0 \<longrightarrow>
      errorState asString this =
        (if truthy asString then JStr ''Connection failed'' else JNum ERR_CONNECTION))
   \<and> (status this \<noteq> 0 \<and> \<not> (200 \<le> status this \<and> status this < 300) \<longrightarrow>
      errorState asString this =
        (if truthy asString then JStr (''HTTP '' @ string_of_nat (status this))
         else JNum ERR_HTTPSTATUS))
   \<and> (200 \<le> status this \<and> status this < 300 \<and> \<not> isSuccessResponse this \<longrightarrow>
      errorState asString this =
        (if truthy asString then JStr ''Unexpected response body format''
         else JNum ERR_BODYTYPE))
   \<and> (isSuccessResponse this \<longrightarrow>
      errorState asString this =
        (if truthy asString then JStr ''No error'' else JNum ERR_NONE))
   \<and> errorState (JBool False)
        (this\<lparr> xhr := (xhr this)\<lparr> xhr_status := 0, xhr_response := resp \<rparr> \<rparr>)
       = JNum ERR_CONNECTION
   \<and> errorState (JBool False)
        (this\<lparr> xhr := (xhr this)\<lparr> xhr_status := 404, xhr_responseType := rt \<rparr> \<rparr>)
       = JNum ERR_HTTPSTATUS
   \<and> errorState (JBool True)
        (this\<lparr> xhr := (xhr this)\<lparr> xhr_status := 404, xhr_responseType := rt \<rparr> \<rparr>)
       = JStr ''HTTP 404''"
  by (simp add: errorState_def isSuccessResponse_def isStatusOK_def status_def string_of_nat_404)

theorem errorState_precedence_witness:
  "errorState (JBool True) (settled 0 ''json'' (JObj [])) = JStr ''Connection failed''
   \<and> errorState JUndefined (settled 0 ''json'' (JObj [])) = JNum 1
   \<and> errorState (JBool True) (settled 404 ''json'' (JObj [])) = JStr ''HTTP 404''
   \<and> errorState (JNum 0) (settled 500 [] (JStr [])) = JNum 2
   \<and> errorState (JStr ''y'') (settled 200 ''json'' JNull) = JStr ''Unexpected response body format''
   \<and> errorState JNull (settled 200 ''json'' JNull) = JNum 3
   \<and> errorState (JBool True) (settled 200 ''json'' (JObj [])) = JStr ''No error''
   \<and> errorState (JBool False) (settled 200 [] JNull) = JNum 0"
  using errorState_precedence [of "settled 0 ''json'' (JObj [])" "JBool True"]
    errorState_precedence [of "settled 0 ''json'' (JObj [])" JUndefined]
    errorState_precedence [of "settled 404 ''json'' (JObj [])" "JBool True"]
    errorState_precedence [of "settled 500 [] (JStr [])" "JNum 0"]
    errorState_precedence [of "settled 200 ''json'' JNull" "JStr ''y''"]
    errorState_precedence [of "settled 200 ''json'' JNull" JNull]
    errorState_precedence [of "settled 200 ''json'' (JObj [])" "JBool True"]
    errorState_precedence [of "settled 200 [] JNull" "JBool False"]
  by (simp add: settled_def new_XHR_def fresh_transport_def status_def isSuccessResponse_def
      isStatusOK_def string_of_nat_404 ERR_NONE_def ERR_CONNECTION_def ERR_HTTPSTATUS_def
      ERR_BODYTYPE_def)

section \<open>Dispatch\<close>

text \<open>
  Claim C3: when the url is the empty string, \<^verbatim>\<open>send\<close> throws
  \<^verbatim>\<open>Error('The request URL is empty')\<close> at once; the object it leaves behind is the object it
  was given, so no call reached the transport and neither the configuration nor the
  transport changed.
\<close>

theorem send_empty_url:
  "url this = [] \<Longrightarrow>
   send body this = (Some (Error ''The request URL is empty''), this)
   \<and> xhr_calls (xhr (snd (send body this))) = xhr_calls (xhr this)"
  by (simp add: send_def)

theorem send_empty_url_witness:
  "url (new_XHR fresh_transport [] (JStr ''b'') ''POST'') = []
   \<and> send (JStr ''c'') (new_XHR fresh_transport [] (JStr ''b'') ''POST'')
       = (Some (Error ''The request URL is empty''), new_XHR fresh_transport [] (JStr ''b'') ''POST'')
   \<and> xhr_calls (xhr (snd (send (JStr ''c'') (new_XHR fresh_transport [] (JStr ''b'') ''POST''))))
       = []"
  using send_empty_url [of "new_XHR fresh_transport [] (JStr ''b'') ''POST''" "JStr ''c''"]
  by (simp add: new_XHR_def fresh_transport_def str_or_def)

text \<open>
  Claim C4 as stated sends the per-dispatch body whenever it is present. The code selects
  by truthiness: with the stored body \<^verbatim>\<open>"b1"\<close>, \<^verbatim>\<open>send("")\<close> passes a body that is present
  and falsy, and the transport is sent the stored body; with no stored body it is sent
  nothing, by \<^verbatim>\<open>GET\<close>.
\<close>

theorem send_present_falsy_body_counterexample:
  "url stored_b1 = ''http://h/'' \<and> postData stored_b1 = JStr ''b1'' \<and>
   xhr_calls (xhr (snd (send (JStr []) stored_b1))) =
     [Open ''POST'' ''http://h/'' True JUndefined JUndefined, Send (Some (JStr ''b1''))] \<and>
   xhr_calls (xhr (snd (send (JStr []) blank_request))) =
     [Open ''GET'' ''http://h/'' True JUndefined JUndefined, Send None]"
  by (simp add: stored_b1_def blank_request_def reset_def new_XHR_def fresh_transport_def
      send_def transport_calls_def set_headers_def forin_def js_or_def str_or_def)

text \<open>
  Claim C4, amended: for a non-empty url, \<^verbatim>\<open>send\<close> throws nothing and makes exactly these
  calls on the transport, in this order. It opens with the stored method if that is
  non-empty, else \<^verbatim>\<open>POST\<close> if the per-dispatch body or else the stored body is truthy, else
  \<^verbatim>\<open>GET\<close>, together with the url, \<^verbatim>\<open>async = true\<close>, the user name and the password. It sets
  every stored header, each once. It sends the per-dispatch body if that is truthy, else
  the stored body if that is truthy, else no body.
\<close>

theorem send_dispatch:
  "url this \<noteq> [] \<Longrightarrow>
   send body this =
     (None,
      transport_calls
        ([Open (if method_name this \<noteq> [] then method_name this
                else if truthy body \<or> truthy (postData this) then ''POST'' else ''GET'')
            (url this) True (userName this) (password this)]
         @ set_headers this
         @ [Send (if truthy body then Some body
                  else if truthy (postData this) then Some (postData this) else None)])
        this)
   \<and> set (set_headers this) = (\<lambda>(key, v). SetRequestHeader key v) ` set (headers this)
   \<and> length (set_headers this) = length (headers this)"
  by (simp add: send_def js_or_def str_or_def set_set_headers length_set_headers)

theorem send_dispatch_witness:
  "url configured \<noteq> []
   \<and> xhr_calls (xhr (snd (send (JStr ''body'') configured))) =
       [Open ''PUT'' ''http://h/'' True (JStr ''u'') (JStr ''p''),
        SetRequestHeader ''9'' ''a'', SetRequestHeader ''10'' ''b'',
        SetRequestHeader ''X-Test'' ''OK'', Send (Some (JStr ''body''))]
   \<and> xhr_calls (xhr (snd (send JUndefined blank_request))) =
       [Open ''GET'' ''http://h/'' True JUndefined JUndefined, Send None]"
  using send_dispatch [of configured "JStr ''body''"] send_dispatch [of blank_request JUndefined]
  by (simp add: configured_def blank_request_def new_XHR_def fresh_transport_def
      transport_calls_def set_headers_def forin_def is_array_index_def is_digit_def
      nat_of_digits_def str_or_def js_or_def)

text \<open>
  Claim C6 as stated has \<^verbatim>\<open>send(body2)\<close> send \<open>body2\<close> for every explicit argument. After
  \<^verbatim>\<open>reset(url1, "b1")\<close>, \<^verbatim>\<open>send(0)\<close> passes an explicit argument and the transport is sent
  the stored body \<^verbatim>\<open>"b1"\<close>, never \<open>0\<close>.
\<close>

theorem send_falsy_explicit_body_counterexample:
  "xhr_calls (xhr (snd (send (JNum 0) stored_b1))) =
     [Open ''POST'' ''http://h/'' True JUndefined JUndefined, Send (Some (JStr ''b1''))]
   \<and> Send (Some (JNum 0)) \<notin> set (xhr_calls (xhr (snd (send (JNum 0) stored_b1))))"
  by (simp add: stored_b1_def reset_def new_XHR_def fresh_transport_def send_def
      transport_calls_def set_headers_def forin_def js_or_def str_or_def)

text \<open>
  Claim C6, amended: \<^verbatim>\<open>send\<close> never changes the stored method, url, body, credentials,
  headers or user data, whatever its argument and whether or not it throws. After
  \<^verbatim>\<open>reset(url1, body1)\<close> with a non-empty \<open>url1\<close>, \<^verbatim>\<open>send(body2)\<close> with a truthy \<open>body2\<close>
  (directly, or after an earlier \<^verbatim>\<open>send()\<close>) opens \<open>url1\<close> with the inferred method
  \<^verbatim>\<open>POST\<close> and sends \<open>body2\<close>, and the stored body is still what \<^verbatim>\<open>reset\<close> stored.
\<close>

theorem send_frame:
  "method_name (snd (send body this)) = method_name this
   \<and> url (snd (send body this)) = url this
   \<and> postData (snd (send body this)) = postData this
   \<and> userName (snd (send body this)) = userName this
   \<and> password (snd (send body this)) = password this
   \<and> headers (snd (send body this)) = headers this
   \<and> data (snd (send body this)) = data this
   \<and> (url1 \<noteq> [] \<and> truthy body2 \<longrightarrow>
        send body2 (reset url1 body1 [] this) =
          (None, transport_calls
             ([Open ''POST'' url1 True (userName this) (password this)]
              @ set_headers this @ [Send (Some body2)]) (reset url1 body1 [] this))
        \<and> send body2 (snd (send JUndefined (reset url1 body1 [] this))) =
          (None, transport_calls
             ([Open ''POST'' url1 True (userName this) (password this)]
              @ set_headers this @ [Send (Some body2)])
             (snd (send JUndefined (reset url1 body1 [] this))))
        \<and> postData (snd (send body2 (snd (send JUndefined (reset url1 body1 [] this)))))
            = js_or body1 JUndefined)"
proof -
  let ?r = "reset url1 body1 [] this"
  let ?s = "snd (send JUndefined ?r)"
  have r: "method_name ?r = []" "url ?r = url1" "userName ?r = userName this"
    "password ?r = password this" "headers ?r = headers this"
    "postData ?r = js_or body1 JUndefined"
    by (simp_all add: reset_def str_or_def)
  have s: "method_name ?s = []" "url ?s = url1" "userName ?s = userName this"
    "password ?s = password this" "headers ?s = headers this"
    "postData ?s = js_or body1 JUndefined"
    by (simp_all add: send_descriptor r)
  have round: "send body2 ?r =
          (None, transport_calls
             ([Open ''POST'' url1 True (userName this) (password this)]
              @ set_headers this @ [Send (Some body2)]) ?r)"
      "send body2 ?s =
          (None, transport_calls
             ([Open ''POST'' url1 True (userName this) (password this)]
              @ set_headers this @ [Send (Some body2)]) ?s)"
    if "url1 \<noteq> []" "truthy body2"
    using that send_truthy_body [of ?r body2] send_truthy_body [of ?s body2]
    by (simp_all add: r s str_or_def set_headers_cong [of ?r this] set_headers_cong [of ?s this])
  have kept: "postData (snd (send body2 ?s)) = js_or body1 JUndefined"
    by (simp add: send_descriptor r)
  show ?thesis
    using round kept send_descriptor [of body this] by blast
qed

theorem send_frame_witness:
  "''http://h/'' \<noteq> [] \<and> truthy (JStr ''b2'')
   \<and> xhr_calls (xhr (snd (send (JStr ''b2'')
        (snd (send JUndefined (reset ''http://h/'' (JStr ''b1'') [] blank_request)))))) =
     [Open ''POST'' ''http://h/'' True JUndefined JUndefined, Send (Some (JStr ''b1'')),
      Open ''POST'' ''http://h/'' True JUndefined JUndefined, Send (Some (JStr ''b2''))]
   \<and> postData (snd (send (JStr ''b2'')
        (snd (send JUndefined (reset ''http://h/'' (JStr ''b1'') [] blank_request)))))
      = JStr ''b1''"
  using send_frame [of JUndefined blank_request "''http://h/''" "JStr ''b2''" "JStr ''b1''"]
  by (auto simp: blank_request_def reset_def new_XHR_def fresh_transport_def send_def
      transport_calls_def set_headers_def forin_def js_or_def str_or_def)

text \<open>
  Claim C10: the body is selected by truthiness. A falsy argument (the empty string, \<open>0\<close>,
  \<^verbatim>\<open>null\<close>, \<^verbatim>\<open>false\<close>) makes \<^verbatim>\<open>send\<close> do exactly what it does with no argument. For a non-empty
  url, the stored body is then sent if it is truthy (by \<^verbatim>\<open>POST\<close> unless a method is stored);
  if the stored body is falsy too, nothing is sent and the method defaults to \<^verbatim>\<open>GET\<close>.
\<close>

theorem send_falsy_body:
  "(\<not> truthy body \<longrightarrow> send body this = send JUndefined this)
   \<and> send (JStr []) this = send JUndefined this
   \<and> send (JNum 0) this = send JUndefined this
   \<and> send JNull this = send JUndefined this
   \<and> send (JBool False) this = send JUndefined this
   \<and> (url this \<noteq> [] \<and> \<not> truthy body \<and> truthy (postData this) \<longrightarrow>
        send body this =
          (None, transport_calls
             ([Open (if method_name this = [] then ''POST'' else method_name this) (url this) True
                 (userName this) (password this)]
              @ set_headers this @ [Send (Some (postData this))]) this))
   \<and> (url this \<noteq> [] \<and> \<not> truthy body \<and> \<not> truthy (postData this) \<longrightarrow>
        send body this =
          (None, transport_calls
             ([Open (if method_name this = [] then ''GET'' else method_name this) (url this) True
                 (userName this) (password this)]
              @ set_headers this @ [Send None]) this))"
  by (simp add: send_def js_or_def str_or_def)

theorem send_falsy_body_witness:
  "\<not> truthy (JBool False) \<and> \<not> truthy JNull
   \<and> xhr_calls (xhr (snd (send (JBool False) stored_b1))) =
       [Open ''POST'' ''http://h/'' True JUndefined JUndefined, Send (Some (JStr ''b1''))]
   \<and> xhr_calls (xhr (snd (send JNull (reset ''http://h/'' (JNum 0) [] stored_b1)))) =
       [Open ''GET'' ''http://h/'' True JUndefined JUndefined, Send None]"
  using send_falsy_body [of "JBool False" stored_b1]
    send_falsy_body [of JNull "reset ''http://h/'' (JNum 0) [] stored_b1"]
  by (auto simp: stored_b1_def reset_def new_XHR_def fresh_transport_def send_def
      transport_calls_def set_headers_def forin_def js_or_def str_or_def)

section \<open>The observer slot\<close>

text \<open>
  Claim C5: \<^verbatim>\<open>onChange\<close>, \<^verbatim>\<open>onReady\<close>, \<^verbatim>\<open>onSuccess\<close> and \<^verbatim>\<open>promise\<close> each install their closure
  in the one slot \<^verbatim>\<open>xhr.onreadystatechange\<close>, and the result does not depend on what the
  slot held before. After \<^verbatim>\<open>onReady(h)\<close> and then \<^verbatim>\<open>onSuccess(hOk, hErr)\<close> the object is the
  one \<^verbatim>\<open>onSuccess(hOk, hErr)\<close> alone produces: a notification in the completed state calls
  \<open>hOk\<close> or \<open>hErr\<close> by the classification and nothing else, so a function \<open>h\<close> that is
  neither of them is not called.
\<close>

theorem observer_single_slot:
  "xhr_onreadystatechange (xhr (onChange h this)) = OnChangeObs h
   \<and> xhr_onreadystatechange (xhr (onReady h this)) = OnReadyObs h
   \<and> xhr_onreadystatechange (xhr (onSuccess hOk hErr this)) = OnSuccessObs hOk hErr
   \<and> xhr_onreadystatechange (xhr (snd (promise body this))) = PromiseObs
   \<and> onChange h (set_onreadystatechange previous this) = onChange h this
   \<and> onReady h (set_onreadystatechange previous this) = onReady h this
   \<and> onSuccess hOk hErr (set_onreadystatechange previous this) = onSuccess hOk hErr this
   \<and> promise body (set_onreadystatechange previous this) = promise body this
   \<and> onSuccess hOk hErr (onReady h this) = onSuccess hOk hErr this
   \<and> fire_onreadystatechange (onSuccess hOk hErr (onReady h this)) =
       (if isCompleted this
        then (if isSuccessResponse this then invoke hOk else invoke hErr)
        else [])
   \<and> (hOk \<noteq> Function f \<and> hErr \<noteq> Function f \<longrightarrow>
        Called f \<notin> set (fire_onreadystatechange (onSuccess hOk hErr (onReady (Function f) this))))"
proof -
  have slots:
    "xhr_onreadystatechange (xhr (onChange h this)) = OnChangeObs h"
    "xhr_onreadystatechange (xhr (onReady h this)) = OnReadyObs h"
    "xhr_onreadystatechange (xhr (onSuccess hOk hErr this)) = OnSuccessObs hOk hErr"
    by (simp_all add: onChange_def onReady_def onSuccess_def set_onreadystatechange_def)
  have overwrite:
    "onChange h (set_onreadystatechange previous this) = onChange h this"
    "onReady h (set_onreadystatechange previous this) = onReady h this"
    "onSuccess hOk hErr (set_onreadystatechange previous this) = onSuccess hOk hErr this"
    "promise body (set_onreadystatechange previous this) = promise body this"
    by (simp_all add: onChange_def onReady_def onSuccess_def promise_def
        set_onreadystatechange_def)
  have after_onReady: "onSuccess hOk hErr (onReady h' this) = onSuccess hOk hErr this" for h'
    by (simp add: onReady_def onSuccess_def set_onreadystatechange_def)
  have fires: "fire_onreadystatechange (onSuccess hOk hErr this) =
      (if isCompleted this
       then (if isSuccessResponse this then invoke hOk else invoke hErr) else [])"
    by (simp add: fire_onreadystatechange_def onSuccess_def set_onreadystatechange_def
        isCompleted_def isSuccessResponse_def isStatusOK_def)
  have silent: "Called f \<notin> set (fire_onreadystatechange (onSuccess hOk hErr this))"
    if "hOk \<noteq> Function f" "hErr \<noteq> Function f"
    using that by (auto simp: fires invoke_def split: callback.splits)
  show ?thesis
    using slots overwrite fires silent promise_installs [of body this]
    by (simp add: after_onReady)
qed

theorem observer_single_slot_witness:
  "fire_onreadystatechange (onReady (Function 1) (settled 200 [] (JStr ''ok''))) = [Called 1]
   \<and> fire_onreadystatechange
        (onSuccess (Function 2) (Function 3) (onReady (Function 1) (settled 200 [] (JStr ''ok''))))
       = [Called 2]
   \<and> fire_onreadystatechange
        (onSuccess (Function 2) (Function 3) (onReady (Function 1) (settled 404 [] (JStr ''no''))))
       = [Called 3]
   \<and> Called 1 \<notin> set (fire_onreadystatechange
        (onSuccess (Function 2) (Function 3) (onReady (Function 1) (settled 200 [] (JStr ''ok'')))))"
proof -
  have before: "fire_onreadystatechange (onReady (Function 1) (settled 200 [] (JStr ''ok'')))
      = [Called 1]"
    by (simp add: fire_onreadystatechange_def onReady_def set_onreadystatechange_def
        settled_def new_XHR_def isCompleted_def invoke_def)
  show ?thesis
    using before
      observer_single_slot [of "Function 1" "settled 200 [] (JStr ''ok'')" "Function 2"
        "Function 3" JUndefined NoObserver 1]
      observer_single_slot [of "Function 1" "settled 404 [] (JStr ''no'')" "Function 2"
        "Function 3" JUndefined NoObserver 1]
    by (auto simp: isCompleted_settled isSuccessResponse_settled invoke_def)
qed

section \<open>Headers and cookies\<close>

text \<open>
  Claim C7 says that \<^verbatim>\<open>setHeader(name, v)\<close> stores a non-empty string \<open>v\<close> under every
  non-empty string name and that every other \<open>v\<close> removes the header. The code does so for
  ordinary names (\<open>setHeader_ordinary_name\<close>, \<open>setHeader_empty_is_undefined\<close>,
  \<open>setHeader_idempotent\<close>, \<open>setHeader_last_write_wins\<close>), but the header table is a plain
  object that inherits from \<^verbatim>\<open>Object.prototype\<close>:
  \<^verbatim>\<open>setHeader('__proto__', 'x')\<close> stores nothing, so a later \<^verbatim>\<open>send\<close> sets no such header;
  and once a header named \<^verbatim>\<open>hasOwnProperty\<close> is stored, every removal
  (\<^verbatim>\<open>setHeader('Accept', '')\<close>) throws a \<^verbatim>\<open>TypeError\<close> and removes nothing.
\<close>

theorem setHeader_prototype_names:
  "setHeader (JStr ''__proto__'') (JStr ''x'') blank_request = (None, blank_request)
   \<and> headers blank_request = []
   \<and> xhr_calls (xhr (snd (send JUndefined
        (snd (setHeader (JStr ''__proto__'') (JStr ''x'') blank_request)))))
       = [Open ''GET'' ''http://h/'' True JUndefined JUndefined, Send None]
   \<and> headers (snd (setHeader (JStr ''hasOwnProperty'') (JStr ''x'') blank_request))
       = [(''hasOwnProperty'', ''x'')]
   \<and> setHeader (JStr ''Accept'') (JStr [])
        (snd (setHeader (JStr ''Accept'') (JStr ''text/plain'')
           (snd (setHeader (JStr ''hasOwnProperty'') (JStr ''x'') blank_request))))
       = (Some (TypeError ''hasOwnProperty is not a function''),
          blank_request\<lparr> headers := [(''hasOwnProperty'', ''x''), (''Accept'', ''text/plain'')] \<rparr>)"
  by (simp add: setHeader_def blank_request_def new_XHR_def fresh_transport_def
      assign_property_def call_hasOwnProperty_def send_def transport_calls_def set_headers_def
      forin_def str_or_def js_or_def)

text \<open>
  Claim C8 as stated replaces the \<^verbatim>\<open>Cookie\<close> header by the joined encoding of the entries
  with non-empty string values, and removes it for an absent or empty map only. For the
  non-empty map \<^verbatim>\<open>{a: ""}\<close> no entry qualifies and the joined encoding is the empty string;
  the code does not store it but removes the \<^verbatim>\<open>Cookie\<close> header.
\<close>

theorem setCookies_no_string_value_counterexample:
  "headers cookie_old = [(''Cookie'', ''old=1'')]
   \<and> encoded_cookies [(''a'', JStr [])] = []
   \<and> headers (snd (setCookies (JObj [(''a'', JStr [])]) cookie_old)) = []
   \<and> map_of (headers (snd (setCookies (JObj [(''a'', JStr [])]) cookie_old))) ''Cookie''
        \<noteq> Some (join ''; '' (encoded_cookies [(''a'', JStr [])]))"
  by (simp add: cookie_old_def blank_request_def new_XHR_def setCookies_def forin_def
      is_array_index_def is_digit_def call_hasOwnProperty_on_def call_hasOwnProperty_def
      encoded_cookies_def cookie_pair_def)

text \<open>
  Claim C8, amended. Let the map be a plain object (own enumerable data properties) that
  takes \<^verbatim>\<open>hasOwnProperty\<close> from \<^verbatim>\<open>Object.prototype\<close> (it inherits from it and has no own
  property of that name), and let none of its non-empty string values have an unpaired
  surrogate. If at least one entry
  has a non-empty string value, \<^verbatim>\<open>setCookies(map)\<close> throws nothing and makes the \<^verbatim>\<open>Cookie\<close>
  header the encodings \<^verbatim>\<open>name=encodeURIComponent(value)\<close> of all such entries, in the map's
  iteration order, joined by \<^verbatim>\<open>"; "\<close>, whatever the header table held; so
  \<^verbatim>\<open>{a: "1", b: "2"}\<close> gives \<^verbatim>\<open>Cookie: a=1; b=2\<close>. If no entry qualifies and the header table
  has no own property named \<^verbatim>\<open>hasOwnProperty\<close>, the \<^verbatim>\<open>Cookie\<close> header is removed; so it is,
  for such a header table, when the map is absent (\<^verbatim>\<open>undefined\<close> or \<^verbatim>\<open>null\<close>) or empty, with
  or without a prototype. No other header changes.
\<close>

theorem setCookies_header:
  "(map_of cookies ''hasOwnProperty'' = None \<and> encodable_values cookies
      \<and> encoded_cookies cookies \<noteq> [] \<longrightarrow>
      setCookies (JObj cookies) this =
        (None, this\<lparr> headers :=
           AList.update ''Cookie'' (join ''; '' (encoded_cookies cookies)) (headers this) \<rparr>)
      \<and> map_of (headers (snd (setCookies (JObj cookies) this))) =
          (map_of (headers this))(''Cookie'' \<mapsto> join ''; '' (encoded_cookies cookies)))
   \<and> (map_of cookies ''hasOwnProperty'' = None \<and> encodable_values cookies
      \<and> encoded_cookies cookies = [] \<and> map_of (headers this) ''hasOwnProperty'' = None \<longrightarrow>
      setCookies (JObj cookies) this =
        (None, this\<lparr> headers := AList.delete ''Cookie'' (headers this) \<rparr>)
      \<and> map_of (headers (snd (setCookies (JObj cookies) this))) =
          (map_of (headers this))(''Cookie'' := None))
   \<and> map_of (headers (snd (setCookies (JObj [(''a'', JStr ''1''), (''b'', JStr ''2'')]) this)))
        ''Cookie'' = Some ''a=1; b=2''
   \<and> (map_of (headers this) ''hasOwnProperty'' = None \<longrightarrow>
        setCookies JUndefined this
          = (None, this\<lparr> headers := AList.delete ''Cookie'' (headers this) \<rparr>)
        \<and> setCookies JNull this
          = (None, this\<lparr> headers := AList.delete ''Cookie'' (headers this) \<rparr>)
        \<and> setCookies (JObj []) this
          = (None, this\<lparr> headers := AList.delete ''Cookie'' (headers this) \<rparr>)
        \<and> setCookies (JBareObj []) this
          = (None, this\<lparr> headers := AList.delete ''Cookie'' (headers this) \<rparr>))"
proof -
  have store: "setCookies (JObj cookies) this =
        (None, this\<lparr> headers :=
           AList.update ''Cookie'' (join ''; '' (encoded_cookies cookies)) (headers this) \<rparr>)"
      "map_of (headers (snd (setCookies (JObj cookies) this))) =
          (map_of (headers this))(''Cookie'' \<mapsto> join ''; '' (encoded_cookies cookies))"
    if "map_of cookies ''hasOwnProperty'' = None" "encodable_values cookies"
      "encoded_cookies cookies \<noteq> []"
    by (simp_all add: setCookies_store [OF that] AList.update_conv')
  have remove: "setCookies (JObj cookies) this =
        (None, this\<lparr> headers := AList.delete ''Cookie'' (headers this) \<rparr>)"
      "map_of (headers (snd (setCookies (JObj cookies) this))) =
          (map_of (headers this))(''Cookie'' := None)"
    if "map_of cookies ''hasOwnProperty'' = None" "encodable_values cookies"
      "encoded_cookies cookies = []" "map_of (headers this) ''hasOwnProperty'' = None"
    by (simp_all add: setCookies_remove [OF that] AList.delete_conv')
  have ab: "map_of (headers (snd (setCookies (JObj [(''a'', JStr ''1''), (''b'', JStr ''2'')]) this)))
        ''Cookie'' = Some ''a=1; b=2''"
    by (simp add: setCookies_store encodable_values_ab encoded_cookies_ab AList.update_conv')
  have absent: "setCookies JUndefined this
          = (None, this\<lparr> headers := AList.delete ''Cookie'' (headers this) \<rparr>)"
      "setCookies JNull this
          = (None, this\<lparr> headers := AList.delete ''Cookie'' (headers this) \<rparr>)"
      "setCookies (JObj []) this
          = (None, this\<lparr> headers := AList.delete ''Cookie'' (headers this) \<rparr>)"
      "setCookies (JBareObj []) this
          = (None, this\<lparr> headers := AList.delete ''Cookie'' (headers this) \<rparr>)"
    if h: "map_of (headers this) ''hasOwnProperty'' = None"
  proof -
    show "setCookies JUndefined this
          = (None, this\<lparr> headers := AList.delete ''Cookie'' (headers this) \<rparr>)"
      by (simp add: setCookies_not_object [OF h])
    show "setCookies JNull this
          = (None, this\<lparr> headers := AList.delete ''Cookie'' (headers this) \<rparr>)"
      by (simp add: setCookies_not_object [OF h])
    show "setCookies (JObj []) this
          = (None, this\<lparr> headers := AList.delete ''Cookie'' (headers this) \<rparr>)"
      using setCookies_remove [OF _ _ _ h, of "[]"]
      by (simp add: encoded_cookies_def encodable_values_def forin_def)
    show "setCookies (JBareObj []) this
          = (None, this\<lparr> headers := AList.delete ''Cookie'' (headers this) \<rparr>)"
      by (rule setCookies_empty_bare [OF h])
  qed
  show ?thesis
    using store remove ab absent by blast
qed

theorem setCookies_header_witness:
  "map_of [(''b'', JStr ''x y''), (''n'', JNum 5), (''7'', JStr ''z'')] ''hasOwnProperty'' = None
   \<and> encodable_values [(''b'', JStr ''x y''), (''n'', JNum 5), (''7'', JStr ''z'')]
   \<and> encoded_cookies [(''b'', JStr ''x y''), (''n'', JNum 5), (''7'', JStr ''z'')]
        = [''7=z'', ''b=x%20y'']
   \<and> headers (snd (setCookies (JObj [(''b'', JStr ''x y''), (''n'', JNum 5), (''7'', JStr ''z'')])
                   (cookie_old\<lparr> headers := [(''hasOwnProperty'', ''x''), (''Cookie'', ''old=1'')] \<rparr>)))
     = [(''hasOwnProperty'', ''x''), (''Cookie'', ''7=z; b=x%20y'')]
   \<and> map_of (headers cookie_old) ''hasOwnProperty'' = None
   \<and> encoded_cookies [(''n'', JNum 5), (''e'', JStr [])] = []
   \<and> headers (snd (setCookies (JObj [(''n'', JNum 5), (''e'', JStr [])]) cookie_old)) = []
   \<and> headers (snd (setCookies JUndefined cookie_old)) = []"
  using setCookies_header [of "[(''b'', JStr ''x y''), (''n'', JNum 5), (''7'', JStr ''z'')]"
      "cookie_old\<lparr> headers := [(''hasOwnProperty'', ''x''), (''Cookie'', ''old=1'')] \<rparr>"]
    setCookies_header [of "[(''n'', JNum 5), (''e'', JStr [])]" cookie_old]
  by (auto simp: cookie_old_def blank_request_def new_XHR_def encoded_cookies_def
      encodable_values_def forin_def is_array_index_def is_digit_def nat_of_digits_def
      cookie_pair_def percent_encode_def uri_unreserved_def hex_digit_def)

section \<open>The response type accessor\<close>

text \<open>
  Claim C9 as stated makes \<^verbatim>\<open>responseType\<close> a setter whenever it is called with an
  argument. Called with the argument \<open>5\<close> on a request whose response type is \<^verbatim>\<open>"json"\<close>,
  it returns \<^verbatim>\<open>"json"\<close>: it acts as the getter, stores nothing and does not return the object.
\<close>

theorem responseType_non_string_counterexample:
  "responseType (JNum 5) (settled 200 ''json'' JNull) = Inl ''json''"
  by (simp add: responseType_def settled_def new_XHR_def)

text \<open>
  Claim C9, amended: \<^verbatim>\<open>responseType\<close> is a getter, returning the current response type,
  when it is called with no argument or with any argument that is not a string; called
  with a string it stores the string as the response type, changes nothing else and
  returns the object itself, on which the getter then returns that string.
\<close>

theorem responseType_getter_setter:
  "responseType JUndefined this = Inl (xhr_responseType (xhr this))
   \<and> (typeof v \<noteq> ''string'' \<longrightarrow> responseType v this = Inl (xhr_responseType (xhr this)))
   \<and> responseType (JStr s) this = Inr (this\<lparr> xhr := (xhr this)\<lparr> xhr_responseType := s \<rparr> \<rparr>)
   \<and> responseType JUndefined (this\<lparr> xhr := (xhr this)\<lparr> xhr_responseType := s \<rparr> \<rparr>) = Inl s"
  by (cases v) (simp_all add: responseType_def)

theorem responseType_getter_setter_witness:
  "typeof JNull \<noteq> ''string''
   \<and> responseType JNull (settled 200 ''json'' JNull) = Inl ''json''
   \<and> (case responseType (JStr ''blob'') (settled 200 ''json'' JNull) of
         Inl t \<Rightarrow> False
       | Inr this' \<Rightarrow> responseType JUndefined this' = Inl ''blob'')"
  using responseType_getter_setter [of "settled 200 ''json'' JNull" JNull "''blob''"]
  by (auto simp: settled_def new_XHR_def)

end
